theory Spec2Isabelle
  imports Main
begin

section \<open>Python values and exceptions\<close>

text \<open>
  The values that flow through \<^verbatim>\<open>views.py\<close>: \<^verbatim>\<open>None\<close>, strings (Python 2
  \<^verbatim>\<open>basestring\<close>), integers, lists, tuples, and opaque objects identified by a
  number (a template loader, a tuple of context processors, the object passed to a view).
\<close>

datatype pyval =
    PyNone
  | PyStr string
  | PyInt int
  | PyList "pyval list"
  | PyTuple "pyval list"
  | PyObj nat

text \<open>A Python \<^verbatim>\<open>dict\<close> with string keys; the order of the pairs is the
  dictionary's iteration order.\<close>

type_synonym pydict = "(string \<times> pyval) list"

text \<open>Python's truth value, as \<^verbatim>\<open>not names\<close> and \<^verbatim>\<open>a or b\<close> test it. A plain
  object is true.\<close>

fun truthy :: "pyval \<Rightarrow> bool" where
  "truthy PyNone = False"
| "truthy (PyStr s) = (s \<noteq> [])"
| "truthy (PyInt i) = (i \<noteq> 0)"
| "truthy (PyList xs) = (xs \<noteq> [])"
| "truthy (PyTuple xs) = (xs \<noteq> [])"
| "truthy (PyObj n) = True"

text \<open>\<^verbatim>\<open>isinstance(v, basestring)\<close>\<close>

fun isinstance_basestring :: "pyval \<Rightarrow> bool" where
  "isinstance_basestring (PyStr s) = True"
| "isinstance_basestring v = False"



text \<open>
  The exceptions that can travel through a view. \<open>HttpRedirect path redirect\<close> is the
  module's own exception class: \<open>path\<close> is its argument and \<open>redirect\<close> the value of its
  \<^verbatim>\<open>redirect\<close> attribute. \<open>OtherError\<close> stands for whatever the framework or an
  overriding method raises.
\<close>

datatype 'r exn =
    TypeError string
  | NameError string
  | AttributeError string
  | ImproperlyConfigured string
  | HttpRedirect string 'r
  | OtherError string

section \<open>The metaclass: decorators on \<^verbatim>\<open>__call__\<close>\<close>

text \<open>
  What \<^verbatim>\<open>ObjectViewMeta.__new__\<close> sees of the class that \<^verbatim>\<open>type.__new__\<close> has just
  built: the result of looking up \<^verbatim>\<open>decorators\<close> (\<open>None\<close> when \<^verbatim>\<open>hasattr\<close> is
  false) and of looking up \<^verbatim>\<open>__call__\<close>. The type \<open>'c\<close> is that of callables.
\<close>

record 'c new_class =
  attr_decorators :: "('c \<Rightarrow> 'c) list option"
  attr_call :: "'c"

text \<open>The loop \<^verbatim>\<open>for d in decorators: cls.__call__ = d(cls.__call__)\<close>.\<close>

fun apply_in_turn :: "('c \<Rightarrow> 'c) list \<Rightarrow> 'c \<Rightarrow> 'c" where
  "apply_in_turn [] call = call"
| "apply_in_turn (d # ds) call = apply_in_turn ds (d call)"

definition ObjectViewMeta_new :: "'c new_class \<Rightarrow> 'c new_class" where
  "ObjectViewMeta_new cls =
     (case attr_decorators cls of
        None \<Rightarrow> cls
      | Some decorators \<Rightarrow>
          cls\<lparr>attr_call := apply_in_turn (rev decorators) (attr_call cls)\<rparr>)"

section \<open>What the module gets from the framework\<close>

text \<open>
  The Django objects the code reaches: the function imported on line 1, the module
  \<^verbatim>\<open>django.template.loader\<close> imported inside \<^verbatim>\<open>get_template_loader\<close>, and the two
  methods called on objects (\<^verbatim>\<open>loader.select_template\<close>, \<^verbatim>\<open>template.render\<close>).
  \<open>'t\<close>, \<open>'c\<close> and \<open>'r\<close> are the framework's templates, contexts and responses. A
  framework call may raise.
\<close>

record ('t, 'c, 'r) framework =
  HttpResponseRedirect :: "string \<Rightarrow> 'r"
  django_template_loader :: "pyval"
  select_template :: "pyval \<Rightarrow> pyval \<Rightarrow> 'r exn + 't"
  render :: "'t \<Rightarrow> 'c \<Rightarrow> 'r exn + pyval"

text \<open>
  The remaining global names the method bodies mention and the module does not define:
  \<^verbatim>\<open>ImproperlyConfigured\<close>, \<^verbatim>\<open>RequestContext\<close> and \<^verbatim>\<open>HttpResponse\<close>. Each is either
  bound in the module's namespace when the body runs, or not (\<open>None\<close>), and then
  evaluating the name raises \<^verbatim>\<open>NameError\<close>. \<open>'q\<close> is the type of requests.
\<close>

record ('q, 'c, 'r) module_globals =
  g_ImproperlyConfigured :: "(string \<Rightarrow> 'r exn) option"
  g_RequestContext :: "('q \<Rightarrow> pydict \<Rightarrow> pyval \<Rightarrow> 'r exn + 'c) option"
  g_HttpResponse :: "(pyval \<Rightarrow> pydict \<Rightarrow> 'r exn + 'r) option"

text \<open>
  The namespace \<^verbatim>\<open>views.py\<close> itself builds: its only import is
  \<^verbatim>\<open>from django.http import HttpResponseRedirect\<close>, so none of the three names is bound.
\<close>

definition views_globals :: "('q, 'c, 'r) module_globals" where
  "views_globals =
     \<lparr>g_ImproperlyConfigured = None, g_RequestContext = None, g_HttpResponse = None\<rparr>"

section \<open>Methods as state transformers on the instance\<close>

text \<open>
  An instance is its attribute dictionary. A method takes the instance and returns its
  outcome (an exception, \<open>Inl\<close>, or a value, \<open>Inr\<close>) together with the instance as the
  method leaves it.
\<close>

type_synonym attrs = "string \<rightharpoonup> pyval"

type_synonym ('a, 'r) meth = "attrs \<Rightarrow> ('r exn + 'a) \<times> attrs"

definition return :: "'a \<Rightarrow> ('a, 'r) meth" where
  "return a = (\<lambda>s. (Inr a, s))"

definition raise :: "'r exn \<Rightarrow> ('a, 'r) meth" where
  "raise e = (\<lambda>s. (Inl e, s))"

definition bind :: "('a, 'r) meth \<Rightarrow> ('a \<Rightarrow> ('b, 'r) meth) \<Rightarrow> ('b, 'r) meth" where
  "bind m f = (\<lambda>s. case m s of (Inl e, s') \<Rightarrow> (Inl e, s') | (Inr a, s') \<Rightarrow> f a s')"

text \<open>The outcome of a framework call, which does not touch the instance.\<close>

definition outcome :: "'r exn + 'a \<Rightarrow> ('a, 'r) meth" where
  "outcome x = (\<lambda>s. (x, s))"

section \<open>View classes\<close>

text \<open>Which of the module's two classes a view class derives its \<^verbatim>\<open>__call__\<close> from.\<close>

datatype view_kind = GenericViewKind | ObjectViewKind

text \<open>
  The heap of instances: an instance is identified by its position.
\<close>

type_synonym heap = "attrs list"

text \<open>
  A view class: its name, its class attributes (what
  \<^verbatim>\<open>getattr(self.__class__, k, default)\<close> finds), and for each overridable method either
  \<open>None\<close> (inherited from \<^verbatim>\<open>GenericView\<close>) or the overriding method. The last four
  fields are what a class can do to its own construction and call:
  \<^item> \<open>o_new\<close>: the class's own \<^verbatim>\<open>__new__\<close>, which looks at the heap and may hand out an
    object that exists already (a singleton, a cache), or \<open>None\<close> for \<^verbatim>\<open>object.__new__\<close>;
  \<^item> \<open>o_init\<close>: the class's own \<^verbatim>\<open>__init__\<close>, or \<open>None\<close> for \<^verbatim>\<open>GenericView.__init__\<close>;
  \<^item> \<open>o_call\<close>: the \<^verbatim>\<open>__call__\<close> that attribute lookup finds on the class when it is
    not that of \<^verbatim>\<open>GenericView\<close> or \<^verbatim>\<open>ObjectView\<close> (the class's own, or the one of a
    decorated parent);
  \<^item> \<open>cls_decorators\<close>: the value of the \<^verbatim>\<open>decorators\<close> attribute, \<open>None\<close> when
    \<^verbatim>\<open>hasattr(cls, "decorators")\<close> is false.
\<close>

record ('q, 't, 'c, 'r) view_class =
  cls_name :: "string"
  cls_kind :: "view_kind"
  cls_attrs :: "string \<rightharpoonup> pyval"
  o_get_template :: "('q \<Rightarrow> pyval \<Rightarrow> ('t, 'r) meth) option"
  o_get_template_names :: "('q \<Rightarrow> pyval \<Rightarrow> (pyval, 'r) meth) option"
  o_load_template :: "('q \<Rightarrow> pyval \<Rightarrow> pyval \<Rightarrow> ('t, 'r) meth) option"
  o_get_template_loader :: "('q \<Rightarrow> pyval \<Rightarrow> (pyval, 'r) meth) option"
  o_get_context :: "('q \<Rightarrow> pyval \<Rightarrow> pydict option \<Rightarrow> ('c, 'r) meth) option"
  o_get_context_processors :: "('q \<Rightarrow> pyval \<Rightarrow> (pyval, 'r) meth) option"
  o_get_mimetype :: "('q \<Rightarrow> pyval \<Rightarrow> (pyval, 'r) meth) option"
  o_get_response :: "('q \<Rightarrow> pyval \<Rightarrow> 't \<Rightarrow> 'c \<Rightarrow> pydict \<Rightarrow> ('r, 'r) meth) option"
  o_new :: "(heap \<Rightarrow> nat option) option"
  o_init :: "(pydict \<Rightarrow> (unit, 'r) meth) option"
  o_call :: "('q \<Rightarrow> pyval \<Rightarrow> ('r, 'r) meth) option"
  cls_decorators ::
    "(('q \<Rightarrow> pyval \<Rightarrow> ('r, 'r) meth) \<Rightarrow> ('q \<Rightarrow> pyval \<Rightarrow> ('r, 'r) meth)) list option"

text \<open>A class that overrides no method and has no decorators: \<^verbatim>\<open>GenericView\<close>,
  \<^verbatim>\<open>ObjectView\<close>, or a subclass that only sets class attributes.\<close>

definition plain_class ::
  "string \<Rightarrow> view_kind \<Rightarrow> (string \<rightharpoonup> pyval) \<Rightarrow> ('q, 't, 'c, 'r) view_class" where
  "plain_class name kind class_attrs =
     \<lparr>cls_name = name, cls_kind = kind, cls_attrs = class_attrs,
      o_get_template = None, o_get_template_names = None, o_load_template = None,
      o_get_template_loader = None, o_get_context = None,
      o_get_context_processors = None, o_get_mimetype = None, o_get_response = None,
      o_new = None, o_init = None, o_call = None, cls_decorators = None\<rparr>"

definition GenericView :: "('q, 't, 'c, 'r) view_class" where
  "GenericView = plain_class ''GenericView'' GenericViewKind Map.empty"


text \<open>Reading \<^verbatim>\<open>self.k\<close>: the instance dictionary, then the class, else
  \<^verbatim>\<open>AttributeError\<close>.\<close>

definition self_attr :: "('q, 't, 'c, 'r) view_class \<Rightarrow> string \<Rightarrow> (pyval, 'r) meth" where
  "self_attr cls k =
     (\<lambda>s. case s k of
             Some v \<Rightarrow> (Inr v, s)
           | None \<Rightarrow>
               (case cls_attrs cls k of
                  Some v \<Rightarrow> (Inr v, s)
                | None \<Rightarrow> (Inl (AttributeError k), s)))"

section \<open>\<^verbatim>\<open>GenericView\<close>\<close>

subsection \<open>Construction\<close>

text \<open>\<^verbatim>\<open>initkwargs.pop(k, default)\<close>: the value and the dictionary without the key.\<close>

definition dict_pop :: "string \<Rightarrow> pyval \<Rightarrow> pydict \<Rightarrow> pyval \<times> pydict" where
  "dict_pop k dflt d =
     ((case map_of d k of None \<Rightarrow> dflt | Some v \<Rightarrow> v),
      filter (\<lambda>(k', v). k' \<noteq> k) d)"

text \<open>
  \<^verbatim>\<open>_load_config_values(self, initkwargs, **defaults)\<close>: the loop over \<open>defaults\<close>,
  returning what is left of \<open>initkwargs\<close> (the dictionary is mutated in place, and
  \<^verbatim>\<open>__init__\<close> looks at it afterwards) and the instance.
\<close>

fun load_config_values ::
  "(string \<rightharpoonup> pyval) \<Rightarrow> pydict \<Rightarrow> pydict \<Rightarrow> attrs \<Rightarrow> pydict \<times> attrs" where
  "load_config_values class_attrs [] initkwargs self = (initkwargs, self)"
| "load_config_values class_attrs ((k, d) # defaults) initkwargs self =
     (let dflt = (case class_attrs k of Some v \<Rightarrow> v | None \<Rightarrow> d);
          (val, initkwargs') = dict_pop k dflt initkwargs
      in load_config_values class_attrs defaults initkwargs' (self(k \<mapsto> val)))"

text \<open>The keyword defaults written in \<^verbatim>\<open>__init__\<close>.\<close>

definition config_defaults :: "pydict" where
  "config_defaults =
     [(''context_processors'', PyNone),
      (''mimetype'', PyStr ''text/html''),
      (''template_loader'', PyNone),
      (''template_name'', PyNone)]"

definition config_names :: "string list" where
  "config_names = map fst config_defaults"

definition unexpected_keyword :: "string \<Rightarrow> string" where
  "unexpected_keyword k =
     ''__init__() got an unexpected keyword argument '' @ [CHR 0x27] @ k @ [CHR 0x27]"

text \<open>\<^verbatim>\<open>GenericView.__init__(self, **kwargs)\<close>; \<^verbatim>\<open>iter(kwargs).next()\<close> is the first key
  left.\<close>

definition GenericView_init ::
  "('q, 't, 'c, 'r) view_class \<Rightarrow> pydict \<Rightarrow> (unit, 'r) meth" where
  "GenericView_init cls kwargs =
     (\<lambda>self.
        let (kwargs', self') = load_config_values (cls_attrs cls) config_defaults kwargs self
        in case kwargs' of
             [] \<Rightarrow> (Inr (), self')
           | (k, v) # rest \<Rightarrow> (Inl (TypeError (unexpected_keyword k)), self'))"

subsection \<open>The methods a subclass may override\<close>

text \<open>
  For each method, the body written in \<^verbatim>\<open>GenericView\<close> and, prefixed \<open>self_\<close>, the call
  \<^verbatim>\<open>self.method(...)\<close>, which runs the override when the class has one.
\<close>

definition get_template_names ::
  "('q, 't, 'c, 'r) view_class \<Rightarrow> 'q \<Rightarrow> pyval \<Rightarrow> (pyval, 'r) meth" where
  "get_template_names cls request obj =
     bind (self_attr cls ''template_name'') (\<lambda>template_name.
       if template_name = PyNone then return (PyList [])
       else if isinstance_basestring template_name then return (PyList [template_name])
       else return template_name)"

definition self_get_template_names ::
  "('q, 't, 'c, 'r) view_class \<Rightarrow> 'q \<Rightarrow> pyval \<Rightarrow> (pyval, 'r) meth" where
  "self_get_template_names cls =
     (case o_get_template_names cls of None \<Rightarrow> get_template_names cls | Some f \<Rightarrow> f)"

definition get_template_loader ::
  "('t, 'c, 'r) framework \<Rightarrow> ('q, 't, 'c, 'r) view_class \<Rightarrow> 'q \<Rightarrow> pyval \<Rightarrow> (pyval, 'r) meth" where
  "get_template_loader fw cls request obj =
     bind (self_attr cls ''template_loader'') (\<lambda>template_loader.
       return (if truthy template_loader then template_loader
               else django_template_loader fw))"

definition self_get_template_loader ::
  "('t, 'c, 'r) framework \<Rightarrow> ('q, 't, 'c, 'r) view_class \<Rightarrow> 'q \<Rightarrow> pyval \<Rightarrow> (pyval, 'r) meth" where
  "self_get_template_loader fw cls =
     (case o_get_template_loader cls of None \<Rightarrow> get_template_loader fw cls | Some f \<Rightarrow> f)"

definition load_template ::
  "('t, 'c, 'r) framework \<Rightarrow> ('q, 't, 'c, 'r) view_class \<Rightarrow> 'q \<Rightarrow> pyval \<Rightarrow> pyval
     \<Rightarrow> ('t, 'r) meth" where
  "load_template fw cls request obj names =
     bind (self_get_template_loader fw cls request obj) (\<lambda>loader.
       outcome (select_template fw loader names))"

definition self_load_template ::
  "('t, 'c, 'r) framework \<Rightarrow> ('q, 't, 'c, 'r) view_class \<Rightarrow> 'q \<Rightarrow> pyval \<Rightarrow> pyval
     \<Rightarrow> ('t, 'r) meth" where
  "self_load_template fw cls =
     (case o_load_template cls of None \<Rightarrow> load_template fw cls | Some f \<Rightarrow> f)"

definition must_provide :: "string \<Rightarrow> string" where
  "must_provide class_name =
     [CHR 0x27] @ class_name @ [CHR 0x27] @ '' must provide template_name.''"

definition get_template ::
  "('q, 'c, 'r) module_globals \<Rightarrow> ('t, 'c, 'r) framework \<Rightarrow> ('q, 't, 'c, 'r) view_class
     \<Rightarrow> 'q \<Rightarrow> pyval \<Rightarrow> ('t, 'r) meth" where
  "get_template g fw cls request obj =
     bind (self_get_template_names cls request obj) (\<lambda>names.
       if \<not> truthy names then
         (case g_ImproperlyConfigured g of
            None \<Rightarrow> raise (NameError ''ImproperlyConfigured'')
          | Some improperly_configured \<Rightarrow>
              raise (improperly_configured (must_provide (cls_name cls))))
       else self_load_template fw cls request obj names)"

definition self_get_template ::
  "('q, 'c, 'r) module_globals \<Rightarrow> ('t, 'c, 'r) framework \<Rightarrow> ('q, 't, 'c, 'r) view_class
     \<Rightarrow> 'q \<Rightarrow> pyval \<Rightarrow> ('t, 'r) meth" where
  "self_get_template g fw cls =
     (case o_get_template cls of None \<Rightarrow> get_template g fw cls | Some f \<Rightarrow> f)"

definition get_context_processors ::
  "('q, 't, 'c, 'r) view_class \<Rightarrow> 'q \<Rightarrow> pyval \<Rightarrow> (pyval, 'r) meth" where
  "get_context_processors cls request obj = self_attr cls ''context_processors''"

definition self_get_context_processors ::
  "('q, 't, 'c, 'r) view_class \<Rightarrow> 'q \<Rightarrow> pyval \<Rightarrow> (pyval, 'r) meth" where
  "self_get_context_processors cls =
     (case o_get_context_processors cls of
        None \<Rightarrow> get_context_processors cls | Some f \<Rightarrow> f)"

definition get_context ::
  "('q, 'c, 'r) module_globals \<Rightarrow> ('q, 't, 'c, 'r) view_class \<Rightarrow> 'q \<Rightarrow> pyval
     \<Rightarrow> pydict option \<Rightarrow> ('c, 'r) meth" where
  "get_context g cls request obj context =
     bind (self_get_context_processors cls request obj) (\<lambda>processors.
       let context' = (case context of None \<Rightarrow> [] | Some d \<Rightarrow> d)
       in case g_RequestContext g of
            None \<Rightarrow> raise (NameError ''RequestContext'')
          | Some request_context \<Rightarrow> outcome (request_context request context' processors))"

definition self_get_context ::
  "('q, 'c, 'r) module_globals \<Rightarrow> ('q, 't, 'c, 'r) view_class \<Rightarrow> 'q \<Rightarrow> pyval
     \<Rightarrow> pydict option \<Rightarrow> ('c, 'r) meth" where
  "self_get_context g cls =
     (case o_get_context cls of None \<Rightarrow> get_context g cls | Some f \<Rightarrow> f)"

definition get_mimetype ::
  "('q, 't, 'c, 'r) view_class \<Rightarrow> 'q \<Rightarrow> pyval \<Rightarrow> (pyval, 'r) meth" where
  "get_mimetype cls request obj = self_attr cls ''mimetype''"

definition self_get_mimetype ::
  "('q, 't, 'c, 'r) view_class \<Rightarrow> 'q \<Rightarrow> pyval \<Rightarrow> (pyval, 'r) meth" where
  "self_get_mimetype cls =
     (case o_get_mimetype cls of None \<Rightarrow> get_mimetype cls | Some f \<Rightarrow> f)"

definition get_response ::
  "('q, 'c, 'r) module_globals \<Rightarrow> ('t, 'c, 'r) framework \<Rightarrow> 'q \<Rightarrow> pyval \<Rightarrow> 't \<Rightarrow> 'c
     \<Rightarrow> pydict \<Rightarrow> ('r, 'r) meth" where
  "get_response g fw request obj template context httpresponse_kwargs =
     (case g_HttpResponse g of
        None \<Rightarrow> raise (NameError ''HttpResponse'')
      | Some http_response \<Rightarrow>
          bind (outcome (render fw template context)) (\<lambda>content.
            outcome (http_response content httpresponse_kwargs)))"

definition self_get_response ::
  "('q, 'c, 'r) module_globals \<Rightarrow> ('t, 'c, 'r) framework \<Rightarrow> ('q, 't, 'c, 'r) view_class
     \<Rightarrow> 'q \<Rightarrow> pyval \<Rightarrow> 't \<Rightarrow> 'c \<Rightarrow> pydict \<Rightarrow> ('r, 'r) meth" where
  "self_get_response g fw cls =
     (case o_get_response cls of None \<Rightarrow> get_response g fw | Some f \<Rightarrow> f)"

subsection \<open>\<^verbatim>\<open>GenericView.__call__\<close>\<close>

definition GenericView_call ::
  "('q, 'c, 'r) module_globals \<Rightarrow> ('t, 'c, 'r) framework \<Rightarrow> ('q, 't, 'c, 'r) view_class
     \<Rightarrow> 'q \<Rightarrow> pyval \<Rightarrow> ('r, 'r) meth" where
  "GenericView_call g fw cls request obj =
     bind (self_get_template g fw cls request obj) (\<lambda>template.
     bind (self_get_context g cls request obj None) (\<lambda>context.
     bind (self_get_mimetype cls request obj) (\<lambda>mimetype.
       self_get_response g fw cls request obj template context
         [(''mimetype'', mimetype)])))"

section \<open>\<^verbatim>\<open>HttpRedirect\<close> and \<^verbatim>\<open>ObjectView\<close>\<close>

text \<open>\<^verbatim>\<open>HttpRedirect(path)\<close>: the exception whose \<^verbatim>\<open>redirect\<close> attribute is
  \<^verbatim>\<open>HttpResponseRedirect(path)\<close>.\<close>

definition HttpRedirect_init :: "('t, 'c, 'r) framework \<Rightarrow> string \<Rightarrow> 'r exn" where
  "HttpRedirect_init fw path = HttpRedirect path (HttpResponseRedirect fw path)"

text \<open>\<^verbatim>\<open>ObjectView.__call__\<close>: the \<^verbatim>\<open>try\<close> around the inherited call, with its one
  handler.\<close>

definition ObjectView_call ::
  "('q, 'c, 'r) module_globals \<Rightarrow> ('t, 'c, 'r) framework \<Rightarrow> ('q, 't, 'c, 'r) view_class
     \<Rightarrow> 'q \<Rightarrow> pyval \<Rightarrow> ('r, 'r) meth" where
  "ObjectView_call g fw cls request obj =
     (\<lambda>self.
        case GenericView_call g fw cls request obj self of
          (Inl (HttpRedirect path redirect), self') \<Rightarrow> (Inr redirect, self')
        | (Inl e, self') \<Rightarrow> (Inl e, self')
        | (Inr response, self') \<Rightarrow> (Inr response, self'))"

section \<open>\<^verbatim>\<open>instantiator\<close>\<close>








section \<open>Notions used in the statements\<close>

text \<open>
  The value \<^verbatim>\<open>_load_config_values\<close> is expected to give the attribute \<open>k\<close>: the keyword
  argument if given, else the class attribute if present, else the default \<open>d\<close>.
\<close>

definition config_value :: "(string \<rightharpoonup> pyval) \<Rightarrow> pydict \<Rightarrow> string \<Rightarrow> pyval \<Rightarrow> pyval" where
  "config_value class_attrs kwargs k d =
     (case map_of kwargs k of
        Some v \<Rightarrow> v
      | None \<Rightarrow> (case class_attrs k of Some v \<Rightarrow> v | None \<Rightarrow> d))"

text \<open>A method keeps the configuration when it leaves the four configuration attributes
  of the instance as they were, whatever else it writes.\<close>

definition keeps_config :: "('a, 'r) meth \<Rightarrow> bool" where
  "keeps_config m = (\<forall>s. \<forall>k \<in> set config_names. snd (m s) k = s k)"

text \<open>Every method the class overrides keeps the configuration.\<close>

definition overrides_keep_config :: "('q, 't, 'c, 'r) view_class \<Rightarrow> bool" where
  "overrides_keep_config cls =
     ((\<forall>f. o_get_template cls = Some f \<longrightarrow> (\<forall>request obj. keeps_config (f request obj)))
    \<and> (\<forall>f. o_get_template_names cls = Some f \<longrightarrow>
          (\<forall>request obj. keeps_config (f request obj)))
    \<and> (\<forall>f. o_load_template cls = Some f \<longrightarrow>
          (\<forall>request obj names. keeps_config (f request obj names)))
    \<and> (\<forall>f. o_get_template_loader cls = Some f \<longrightarrow>
          (\<forall>request obj. keeps_config (f request obj)))
    \<and> (\<forall>f. o_get_context cls = Some f \<longrightarrow>
          (\<forall>request obj context. keeps_config (f request obj context)))
    \<and> (\<forall>f. o_get_context_processors cls = Some f \<longrightarrow>
          (\<forall>request obj. keeps_config (f request obj)))
    \<and> (\<forall>f. o_get_mimetype cls = Some f \<longrightarrow> (\<forall>request obj. keeps_config (f request obj)))
    \<and> (\<forall>f. o_get_response cls = Some f \<longrightarrow>
          (\<forall>request obj template context kw.
             keeps_config (f request obj template context kw))))"

text \<open>
  The exception \<open>e\<close> is raised by one of the four methods \<^verbatim>\<open>__call__\<close> invokes, run in
  the order of the source on the instance as the earlier ones left it (each of them
  stands for everything it invokes in turn).
\<close>

definition raised_in_call ::
  "('q, 'c, 'r) module_globals \<Rightarrow> ('t, 'c, 'r) framework \<Rightarrow> ('q, 't, 'c, 'r) view_class
     \<Rightarrow> 'q \<Rightarrow> pyval \<Rightarrow> attrs \<Rightarrow> 'r exn \<Rightarrow> bool" where
  "raised_in_call g fw cls request obj self e =
     (case self_get_template g fw cls request obj self of
        (Inl e1, s1) \<Rightarrow> e1 = e
      | (Inr template, s1) \<Rightarrow>
          (case self_get_context g cls request obj None s1 of
             (Inl e2, s2) \<Rightarrow> e2 = e
           | (Inr context, s2) \<Rightarrow>
               (case self_get_mimetype cls request obj s2 of
                  (Inl e3, s3) \<Rightarrow> e3 = e
                | (Inr mimetype, s3) \<Rightarrow>
                    fst (self_get_response g fw cls request obj template context
                           [(''mimetype'', mimetype)] s3) = Inl e)))"



section \<open>Sample frameworks, classes and instances\<close>

text \<open>Concrete inputs on which the statements below are evaluated: a framework whose
  loader finds every template, one whose loader finds none, an instance as
  \<^verbatim>\<open>__init__\<close> leaves it, and three classes.\<close>

definition example_framework :: "(nat, nat, string) framework" where
  "example_framework =
     \<lparr>HttpResponseRedirect = (\<lambda>path. ''302 '' @ path),
      django_template_loader = PyObj 0,
      select_template = (\<lambda>loader names. Inr 1),
      render = (\<lambda>template context. Inr (PyStr ''body''))\<rparr>"


definition example_instance :: "attrs" where
  "example_instance =
     [''context_processors'' \<mapsto> PyNone, ''mimetype'' \<mapsto> PyStr ''text/html'',
      ''template_loader'' \<mapsto> PyNone, ''template_name'' \<mapsto> PyStr ''page.html'']"

text \<open>A view whose \<^verbatim>\<open>get_context\<close> raises
  \<^verbatim>\<open>HttpRedirect("/auth/permission_denied/")\<close>, as the docstring of \<^verbatim>\<open>ObjectView\<close>
  suggests.\<close>

definition redirecting_view :: "(unit, nat, nat, string) view_class" where
  "redirecting_view =
     (plain_class ''Secret'' ObjectViewKind Map.empty)
       \<lparr>o_get_context := Some (\<lambda>request obj context.
          raise (HttpRedirect_init example_framework ''/auth/permission_denied/''))\<rparr>"

text \<open>A view whose \<^verbatim>\<open>get_context\<close> writes an attribute of its own on the instance.\<close>

definition counting_view :: "(unit, nat, nat, string) view_class" where
  "counting_view =
     (plain_class ''Counter'' ObjectViewKind Map.empty)
       \<lparr>o_get_context := Some (\<lambda>request obj context self.
          (Inr 0, self(''hits'' \<mapsto> PyInt 1)))\<rparr>"

text \<open>A view whose \<^verbatim>\<open>get_context\<close> sets \<^verbatim>\<open>self.mimetype\<close>.\<close>

definition mimetype_setting_view :: "(unit, nat, nat, string) view_class" where
  "mimetype_setting_view =
     (plain_class ''Plain'' ObjectViewKind Map.empty)
       \<lparr>o_get_context := Some (\<lambda>request obj context self.
          (Inr 0, self(''mimetype'' \<mapsto> PyStr ''text/plain'')))\<rparr>"



text \<open>A subclass that only sets the class attribute \<^verbatim>\<open>template_name\<close>.\<close>

definition page_view :: "(unit, nat, nat, string) view_class" where
  "page_view = plain_class ''Page'' ObjectViewKind [''template_name'' \<mapsto> PyStr ''base.html'']"

text \<open>A namespace in which the three names are bound, as they would be had the module
  imported them from the framework.\<close>

definition bound_globals :: "(unit, nat, string) module_globals" where
  "bound_globals =
     \<lparr>g_ImproperlyConfigured = Some ImproperlyConfigured,
      g_RequestContext = Some (\<lambda>request context processors. Inr 2),
      g_HttpResponse = Some (\<lambda>content kw.
        Inr (case (content, kw) of
               (PyStr body, [(k, PyStr mimetype)]) \<Rightarrow> ''200 '' @ mimetype @ '' '' @ body
             | _ \<Rightarrow> ''200''))\<rparr>"

section \<open>Properties\<close>

subsection \<open>Auxiliary facts\<close>

lemmas method_defs =
  GenericView_call_def self_get_template_def get_template_def self_get_template_names_def
  get_template_names_def self_load_template_def load_template_def
  self_get_template_loader_def get_template_loader_def
  self_get_context_def get_context_def self_get_context_processors_def
  get_context_processors_def self_get_mimetype_def get_mimetype_def
  self_get_response_def get_response_def
  bind_def return_def raise_def outcome_def self_attr_def

lemma apply_in_turn_append:
  "apply_in_turn (ds @ es) call = apply_in_turn es (apply_in_turn ds call)"
  by (induction ds arbitrary: call) simp_all

lemma apply_in_turn_rev: "apply_in_turn (rev ds) call = foldr (\<lambda>d c. d c) ds call"
  by (induction ds) (simp_all add: apply_in_turn_append)

lemma map_of_filter_key:
  "map_of (filter (\<lambda>(k', v). k' \<noteq> k0) kw) k = (if k = k0 then None else map_of kw k)"
  by (induction kw) auto

text \<open>What the loop leaves of the keyword arguments: the pairs whose key is no default's.\<close>

lemma load_config_values_rest:
  "fst (load_config_values ca ds kw self) = filter (\<lambda>(k, v). k \<notin> set (map fst ds)) kw"
proof (induction ds arbitrary: kw self)
  case Nil
  then show ?case by simp
next
  case (Cons d ds)
  obtain k0 d0 where d: "d = (k0, d0)" by (cases d)
  have "filter (\<lambda>(k, v). k \<notin> set (map fst ds)) (filter (\<lambda>(k', v). k' \<noteq> k0) kw)
        = filter (\<lambda>(k, v). k \<notin> set (map fst ((k0, d0) # ds))) kw"
    by (induction kw) auto
  then show ?case
    using Cons.IH by (simp add: d dict_pop_def)
qed

text \<open>What the loop writes on the instance, for defaults with distinct names.\<close>

lemma load_config_values_attrs:
  "distinct (map fst ds) \<Longrightarrow>
   snd (load_config_values ca ds kw self) k =
     (case map_of ds k of
        None \<Rightarrow> self k
      | Some d \<Rightarrow> Some (config_value ca kw k d))"
proof (induction ds arbitrary: kw self)
  case Nil
  then show ?case by simp
next
  case (Cons d ds)
  obtain k0 d0 where d: "d = (k0, d0)" by (cases d)
  from Cons.prems have dist: "distinct (map fst ds)" and fresh: "k0 \<notin> fst ` set ds"
    by (simp_all add: d)
  from fresh have none: "map_of ds k0 = None"
    by (simp add: map_of_eq_None_iff)
  show ?case
    using Cons.IH [OF dist] none
    by (auto simp: d dict_pop_def config_value_def map_of_filter_key split: option.splits)
qed

lemma distinct_config: "distinct (map fst config_defaults)"
  by (simp add: config_defaults_def)

lemma init_snd:
  "snd (GenericView_init cls kwargs self) =
     snd (load_config_values (cls_attrs cls) config_defaults kwargs self)"
  by (simp add: GenericView_init_def split: prod.splits list.splits)

lemma init_fst:
  "fst (GenericView_init cls kwargs self) =
     (case filter (\<lambda>(k, v). k \<notin> set config_names) kwargs of
        [] \<Rightarrow> Inr ()
      | (k, v) # rest \<Rightarrow> Inl (TypeError (unexpected_keyword k)))"
  using load_config_values_rest [of "cls_attrs cls" config_defaults kwargs self]
  by (auto simp: GenericView_init_def config_names_def split: prod.splits list.splits)

lemma init_attr:
  "snd (GenericView_init cls kwargs self) k =
     (case map_of config_defaults k of
        None \<Rightarrow> self k
      | Some d \<Rightarrow> Some (config_value (cls_attrs cls) kwargs k d))"
  by (simp add: init_snd load_config_values_attrs [OF distinct_config])

lemma map_of_config_None: "k \<notin> set config_names \<Longrightarrow> map_of config_defaults k = None"
  by (simp add: config_names_def map_of_eq_None_iff)

text \<open>The instances \<^verbatim>\<open>cls()\<close> and \<^verbatim>\<open>cls(template_name=n)\<close> of a class without class
  attributes.\<close>

lemma init_no_kwargs:
  "GenericView_init (plain_class name kind Map.empty) [] Map.empty =
     (Inr (), [''context_processors'' \<mapsto> PyNone, ''mimetype'' \<mapsto> PyStr ''text/html'',
               ''template_loader'' \<mapsto> PyNone, ''template_name'' \<mapsto> PyNone])"
  by (simp add: GenericView_init_def config_defaults_def dict_pop_def plain_class_def)

lemma init_template_name:
  "GenericView_init (plain_class name kind Map.empty) [(''template_name'', PyStr n)] Map.empty =
     (Inr (), [''context_processors'' \<mapsto> PyNone, ''mimetype'' \<mapsto> PyStr ''text/html'',
               ''template_loader'' \<mapsto> PyNone, ''template_name'' \<mapsto> PyStr n])"
  by (simp add: GenericView_init_def config_defaults_def dict_pop_def plain_class_def)

lemma raised_in_call_iff:
  "raised_in_call g fw cls request obj self e =
     (fst (GenericView_call g fw cls request obj self) = Inl e)"
  by (simp add: raised_in_call_def GenericView_call_def bind_def
      split: prod.splits sum.splits)

lemma ObjectView_call_HttpRedirect:
  "fst (GenericView_call g fw cls request obj self) = Inl (HttpRedirect path redirect) \<Longrightarrow>
   fst (ObjectView_call g fw cls request obj self) = Inr redirect"
  by (cases "GenericView_call g fw cls request obj self") (simp add: ObjectView_call_def)



lemma snd_ObjectView_call:
  "snd (ObjectView_call g fw cls request obj s) = snd (GenericView_call g fw cls request obj s)"
  by (simp add: ObjectView_call_def split: prod.splits sum.splits exn.splits)


lemma get_response_unbound:
  "get_response views_globals fw request obj t c kw s = (Inl (NameError ''HttpResponse''), s)"
  by (simp add: get_response_def views_globals_def raise_def)

subsection \<open>Methods that keep the configuration\<close>

lemma keeps_config_return: "keeps_config (return a)"
  by (simp add: keeps_config_def return_def)

lemma keeps_config_raise: "keeps_config (raise e)"
  by (simp add: keeps_config_def raise_def)

lemma keeps_config_outcome: "keeps_config (outcome x)"
  by (simp add: keeps_config_def outcome_def)

lemma keeps_config_self_attr: "keeps_config (self_attr cls k)"
  by (simp add: keeps_config_def self_attr_def split: option.splits)

lemma keeps_config_bind:
  assumes "keeps_config m" and "\<And>a. keeps_config (f a)"
  shows "keeps_config (bind m f)"
  unfolding keeps_config_def
proof (intro allI ballI)
  fix s k
  assume k: "k \<in> set config_names"
  obtain r s' where ms: "m s = (r, s')" by (cases "m s")
  from assms(1) k ms have s': "s' k = s k"
    by (auto simp: keeps_config_def dest!: spec [of _ s])
  show "snd (bind m f s) k = s k"
  proof (cases r)
    case (Inl e)
    then show ?thesis using ms s' by (simp add: bind_def)
  next
    case (Inr a)
    from assms(2) [of a] k have "snd (f a s') k = s' k"
      by (simp add: keeps_config_def)
    then show ?thesis using ms s' Inr by (simp add: bind_def)
  qed
qed

lemma keeps_self_get_template_names:
  "overrides_keep_config cls \<Longrightarrow> keeps_config (self_get_template_names cls request obj)"
  by (auto simp: self_get_template_names_def get_template_names_def overrides_keep_config_def
      intro!: keeps_config_bind keeps_config_self_attr keeps_config_return split: option.splits)

lemma keeps_self_get_template_loader:
  "overrides_keep_config cls \<Longrightarrow> keeps_config (self_get_template_loader fw cls request obj)"
  by (auto simp: self_get_template_loader_def get_template_loader_def overrides_keep_config_def
      intro!: keeps_config_bind keeps_config_self_attr keeps_config_return split: option.splits)

lemma keeps_self_load_template:
  "overrides_keep_config cls \<Longrightarrow> keeps_config (self_load_template fw cls request obj names)"
  by (auto simp: self_load_template_def load_template_def overrides_keep_config_def
      intro!: keeps_config_bind keeps_self_get_template_loader keeps_config_outcome
      split: option.splits)

lemma keeps_self_get_template:
  assumes "overrides_keep_config cls"
  shows "keeps_config (self_get_template g fw cls request obj)"
proof (cases "o_get_template cls")
  case None
  have "keeps_config (get_template g fw cls request obj)"
    unfolding get_template_def
    by (intro keeps_config_bind keeps_self_get_template_names [OF assms])
       (simp add: keeps_config_raise keeps_self_load_template [OF assms] split: option.split)
  with None show ?thesis by (simp add: self_get_template_def)
next
  case (Some f)
  with assms show ?thesis
    by (simp add: self_get_template_def overrides_keep_config_def)
qed

lemma keeps_self_get_context_processors:
  "overrides_keep_config cls \<Longrightarrow> keeps_config (self_get_context_processors cls request obj)"
  by (auto simp: self_get_context_processors_def get_context_processors_def
      overrides_keep_config_def intro!: keeps_config_self_attr split: option.splits)

lemma keeps_self_get_context:
  assumes "overrides_keep_config cls"
  shows "keeps_config (self_get_context g cls request obj context)"
proof (cases "o_get_context cls")
  case None
  have "keeps_config (get_context g cls request obj context)"
    unfolding get_context_def
    by (intro keeps_config_bind keeps_self_get_context_processors [OF assms])
       (simp add: keeps_config_raise keeps_config_outcome split: option.split)
  with None show ?thesis by (simp add: self_get_context_def)
next
  case (Some f)
  with assms show ?thesis
    by (simp add: self_get_context_def overrides_keep_config_def)
qed

lemma keeps_self_get_mimetype:
  "overrides_keep_config cls \<Longrightarrow> keeps_config (self_get_mimetype cls request obj)"
  by (auto simp: self_get_mimetype_def get_mimetype_def
      overrides_keep_config_def intro!: keeps_config_self_attr split: option.splits)

lemma keeps_get_response:
  "keeps_config (get_response g fw request obj template context kw)"
  by (cases "g_HttpResponse g")
     (simp_all add: get_response_def keeps_config_raise keeps_config_bind keeps_config_outcome)

lemma keeps_self_get_response:
  assumes "overrides_keep_config cls"
  shows "keeps_config (self_get_response g fw cls request obj template context kw)"
proof (cases "o_get_response cls")
  case None
  then show ?thesis by (simp add: self_get_response_def keeps_get_response)
next
  case (Some f)
  with assms show ?thesis
    by (simp add: self_get_response_def overrides_keep_config_def)
qed

lemma keeps_GenericView_call:
  "overrides_keep_config cls \<Longrightarrow> keeps_config (GenericView_call g fw cls request obj)"
  unfolding GenericView_call_def
  by (intro keeps_config_bind keeps_self_get_template keeps_self_get_context
      keeps_self_get_mimetype keeps_self_get_response)

subsection \<open>Where an exception comes from\<close>






















subsection \<open>The redirect exception\<close>

text \<open>
  C1. Whenever a method invoked during an \<^verbatim>\<open>ObjectView\<close> call raises
  \<^verbatim>\<open>HttpRedirect(path)\<close>, \<^verbatim>\<open>ObjectView.__call__\<close> does not propagate the exception: it
  returns the response \<^verbatim>\<open>HttpResponseRedirect(path)\<close> stored in the exception's
  \<^verbatim>\<open>redirect\<close> attribute. This holds for every class, whatever it overrides, and in
  every namespace.
\<close>

theorem ObjectView_call_redirect:
  assumes "raised_in_call g fw cls request obj self (HttpRedirect_init fw path)"
  shows "fst (ObjectView_call g fw cls request obj self) = Inr (HttpResponseRedirect fw path)"
  using assms
  by (simp add: raised_in_call_iff HttpRedirect_init_def ObjectView_call_HttpRedirect)

text \<open>On the sample view whose \<^verbatim>\<open>get_context\<close> raises the redirect, in the module's own
  namespace.\<close>

theorem ObjectView_call_redirect_witness:
  "raised_in_call views_globals example_framework redirecting_view () PyNone example_instance
     (HttpRedirect_init example_framework ''/auth/permission_denied/'')
   \<and> fst (ObjectView_call views_globals example_framework redirecting_view () PyNone
            example_instance) = Inr ''302 /auth/permission_denied/''"
proof -
  have h: "raised_in_call views_globals example_framework redirecting_view () PyNone
      example_instance (HttpRedirect_init example_framework ''/auth/permission_denied/'')"
    by (simp add: raised_in_call_def redirecting_view_def plain_class_def example_instance_def
        example_framework_def method_defs)
  show ?thesis
    using h ObjectView_call_redirect [OF h] by (simp add: example_framework_def)
qed

subsection \<open>A missing template name\<close>

text \<open>
  C2. The claim is that a view whose \<^verbatim>\<open>template_name\<close> is \<^verbatim>\<open>None\<close> raises
  \<^verbatim>\<open>ImproperlyConfigured\<close> from \<^verbatim>\<open>get_template\<close>. In the namespace the module builds,
  the name \<^verbatim>\<open>ImproperlyConfigured\<close> is unbound, so the \<^verbatim>\<open>raise\<close> statement of
  \<^verbatim>\<open>get_template\<close> raises \<^verbatim>\<open>NameError\<close> instead: this is what the code does on every
  class that inherits \<^verbatim>\<open>get_template\<close> and \<^verbatim>\<open>get_template_names\<close> and every instance
  whose \<^verbatim>\<open>template_name\<close> is \<^verbatim>\<open>None\<close>, and in particular on \<^verbatim>\<open>GenericView()\<close>.
\<close>

theorem missing_template_name_NameError:
  "GenericView_call views_globals fw
     (cls\<lparr>o_get_template := None, o_get_template_names := None\<rparr>)
     request obj (self(''template_name'' \<mapsto> PyNone)) =
   (Inl (NameError ''ImproperlyConfigured''), self(''template_name'' \<mapsto> PyNone))
   \<and> fst (GenericView_call views_globals fw GenericView request obj
          (snd (GenericView_init GenericView [] Map.empty))) =
       Inl (NameError ''ImproperlyConfigured'')"
  by (simp add: init_no_kwargs GenericView_def,
      simp add: GenericView_call_def self_get_template_def get_template_def
        self_get_template_names_def get_template_names_def plain_class_def views_globals_def
        bind_def return_def raise_def self_attr_def)

subsection \<open>The instantiator\<close>




subsection \<open>The order of the decorators\<close>

text \<open>
  C4. A class with a \<^verbatim>\<open>decorators\<close> attribute \<open>[d1, ..., dn]\<close> ends with
  \<^verbatim>\<open>__call__\<close> equal to \<open>d1 (d2 (... (dn call)))\<close>: the decorators are applied in
  reversed order, the first-listed one outermost. A class without the attribute keeps
  its \<^verbatim>\<open>__call__\<close>.
\<close>

theorem ObjectViewMeta_new_call:
  "attr_call (ObjectViewMeta_new cls) =
     (case attr_decorators cls of
        None \<Rightarrow> attr_call cls
      | Some ds \<Rightarrow> foldr (\<lambda>d c. d c) ds (attr_call cls))"
  by (simp add: ObjectViewMeta_new_def apply_in_turn_rev split: option.split)

subsection \<open>The steps of \<^verbatim>\<open>GenericView.__call__\<close>\<close>

text \<open>
  C5. The claim is that \<^verbatim>\<open>GenericView.__call__\<close> resolves a template, builds a context,
  looks up the mimetype and returns the HTTP response that \<^verbatim>\<open>get_response\<close> builds. In
  the namespace the module builds, \<^verbatim>\<open>RequestContext\<close> and \<^verbatim>\<open>HttpResponse\<close> are unbound.
  So a call never returns a response unless the class overrides \<^verbatim>\<open>get_response\<close>; and
  on \<^verbatim>\<open>GenericView(template_name='page.html')\<close>, when the loader finds the template,
  the call ends in \<^verbatim>\<open>get_context\<close> with \<^verbatim>\<open>NameError\<close>.
\<close>

theorem GenericView_call_never_returns:
  "isl (fst (GenericView_call views_globals fw (cls\<lparr>o_get_response := None\<rparr>) request obj self))
   \<and> fst (GenericView_call views_globals fw GenericView request obj
        (snd (GenericView_init GenericView [(''template_name'', PyStr ''page.html'')]
                Map.empty))) =
       (case select_template fw (django_template_loader fw) (PyList [PyStr ''page.html'']) of
          Inl e \<Rightarrow> Inl e
        | Inr template \<Rightarrow> Inl (NameError ''RequestContext''))"
proof
  show "isl (fst (GenericView_call views_globals fw (cls\<lparr>o_get_response := None\<rparr>) request obj self))"
    by (simp add: GenericView_call_def self_get_response_def get_response_unbound bind_def
        split: prod.splits sum.splits)
next
  show "fst (GenericView_call views_globals fw GenericView request obj
        (snd (GenericView_init GenericView [(''template_name'', PyStr ''page.html'')]
                Map.empty))) =
       (case select_template fw (django_template_loader fw) (PyList [PyStr ''page.html'']) of
          Inl e \<Rightarrow> Inl e
        | Inr template \<Rightarrow> Inl (NameError ''RequestContext''))"
    by (simp add: GenericView_def init_template_name)
       (simp add: plain_class_def views_globals_def method_defs split: sum.splits)
qed

subsection \<open>The configuration attributes\<close>

text \<open>
  C6. \<^verbatim>\<open>GenericView.__init__\<close> sets the four attributes \<^verbatim>\<open>context_processors\<close>,
  \<^verbatim>\<open>mimetype\<close>, \<^verbatim>\<open>template_loader\<close> and \<^verbatim>\<open>template_name\<close>, each to the keyword
  argument if given, else to the class attribute if present, else to the default
  (\<^verbatim>\<open>'text/html'\<close> for the mimetype, \<^verbatim>\<open>None\<close> for the others), and no other attribute;
  and these are the values \<^verbatim>\<open>get_context_processors\<close>, \<^verbatim>\<open>get_mimetype\<close>,
  \<^verbatim>\<open>get_template_loader\<close> and \<^verbatim>\<open>get_template_names\<close> read afterwards.
\<close>

theorem GenericView_init_config:
  fixes cls :: "('q, 't, 'c, 'r) view_class" and fw :: "('t, 'c, 'r) framework"
  shows
  "(\<forall>k d. map_of config_defaults k = Some d \<longrightarrow>
      snd (GenericView_init cls kwargs self) k = Some (config_value (cls_attrs cls) kwargs k d))
   \<and> (\<forall>k. k \<notin> set config_names \<longrightarrow> snd (GenericView_init cls kwargs self) k = self k)
   \<and> config_defaults =
       [(''context_processors'', PyNone), (''mimetype'', PyStr ''text/html''),
        (''template_loader'', PyNone), (''template_name'', PyNone)]
   \<and> get_context_processors cls request obj (snd (GenericView_init cls kwargs self)) =
       (Inr (config_value (cls_attrs cls) kwargs ''context_processors'' PyNone),
        snd (GenericView_init cls kwargs self))
   \<and> get_mimetype cls request obj (snd (GenericView_init cls kwargs self)) =
       (Inr (config_value (cls_attrs cls) kwargs ''mimetype'' (PyStr ''text/html'')),
        snd (GenericView_init cls kwargs self))
   \<and> get_template_loader fw cls request obj (snd (GenericView_init cls kwargs self)) =
       (Inr (let v = config_value (cls_attrs cls) kwargs ''template_loader'' PyNone
             in if truthy v then v else django_template_loader fw),
        snd (GenericView_init cls kwargs self))
   \<and> get_template_names cls request obj (snd (GenericView_init cls kwargs self)) =
       (Inr (let v = config_value (cls_attrs cls) kwargs ''template_name'' PyNone
             in if v = PyNone then PyList []
                else if isinstance_basestring v then PyList [v] else v),
        snd (GenericView_init cls kwargs self))"
proof -
  let ?s = "snd (GenericView_init cls kwargs self)"
  have a: "\<forall>k d. map_of config_defaults k = Some d \<longrightarrow>
      ?s k = Some (config_value (cls_attrs cls) kwargs k d)"
    by (simp add: init_attr)
  have b: "\<forall>k. k \<notin> set config_names \<longrightarrow> ?s k = self k"
    by (simp add: init_attr map_of_config_None)
  have cp: "?s ''context_processors'' =
      Some (config_value (cls_attrs cls) kwargs ''context_processors'' PyNone)"
    by (simp add: init_attr config_defaults_def)
  have mt: "?s ''mimetype'' =
      Some (config_value (cls_attrs cls) kwargs ''mimetype'' (PyStr ''text/html''))"
    by (simp add: init_attr config_defaults_def)
  have tl: "?s ''template_loader'' =
      Some (config_value (cls_attrs cls) kwargs ''template_loader'' PyNone)"
    by (simp add: init_attr config_defaults_def)
  have tn: "?s ''template_name'' =
      Some (config_value (cls_attrs cls) kwargs ''template_name'' PyNone)"
    by (simp add: init_attr config_defaults_def)
  have c: "get_context_processors cls request obj ?s =
       (Inr (config_value (cls_attrs cls) kwargs ''context_processors'' PyNone), ?s)"
    using cp by (simp add: get_context_processors_def self_attr_def)
  have d: "get_mimetype cls request obj ?s =
       (Inr (config_value (cls_attrs cls) kwargs ''mimetype'' (PyStr ''text/html'')), ?s)"
    using mt by (simp add: get_mimetype_def self_attr_def)
  have e: "get_template_loader fw cls request obj ?s =
       (Inr (let v = config_value (cls_attrs cls) kwargs ''template_loader'' PyNone
             in if truthy v then v else django_template_loader fw), ?s)"
    using tl by (simp add: get_template_loader_def bind_def return_def self_attr_def Let_def)
  have f: "get_template_names cls request obj ?s =
       (Inr (let v = config_value (cls_attrs cls) kwargs ''template_name'' PyNone
             in if v = PyNone then PyList []
                else if isinstance_basestring v then PyList [v] else v), ?s)"
    using tn by (simp add: get_template_names_def bind_def return_def self_attr_def Let_def)
  show ?thesis
    using a b c d e f by (simp add: config_defaults_def)
qed

text \<open>On the sample subclass that sets \<^verbatim>\<open>template_name\<close>, constructed with a
  \<^verbatim>\<open>mimetype\<close> keyword: one value from the keyword, one from the class, two defaults.\<close>

theorem GenericView_init_config_witness:
  "fst (get_mimetype page_view () PyNone
         (snd (GenericView_init page_view [(''mimetype'', PyStr ''text/plain'')] Map.empty)))
     = Inr (PyStr ''text/plain'')
   \<and> fst (get_template_names page_view () PyNone
         (snd (GenericView_init page_view [(''mimetype'', PyStr ''text/plain'')] Map.empty)))
     = Inr (PyList [PyStr ''base.html''])
   \<and> fst (get_context_processors page_view () PyNone
         (snd (GenericView_init page_view [(''mimetype'', PyStr ''text/plain'')] Map.empty)))
     = Inr PyNone
   \<and> fst (get_template_loader example_framework page_view () PyNone
         (snd (GenericView_init page_view [(''mimetype'', PyStr ''text/plain'')] Map.empty)))
     = Inr (PyObj 0)"
  using GenericView_init_config [of page_view "[(''mimetype'', PyStr ''text/plain'')]"
          Map.empty "()" PyNone example_framework]
  by (simp add: config_value_def page_view_def plain_class_def example_framework_def)

subsection \<open>Errors the code raises and handles\<close>




subsection \<open>The configuration is only read\<close>

text \<open>
  C8, as amended. For every view instance of a class whose overriding methods, if it
  has any, leave the four configuration attributes as they are, and for every request,
  calling the view, through \<^verbatim>\<open>GenericView.__call__\<close> or \<^verbatim>\<open>ObjectView.__call__\<close>, leaves the
  four configuration attributes of the instance unchanged, when the call returns and
  when it raises: the methods of this code only read them.
\<close>

theorem call_keeps_config:
  assumes "overrides_keep_config cls" and "k \<in> set config_names"
  shows "snd (GenericView_call g fw cls request obj self) k = self k
       \<and> snd (ObjectView_call g fw cls request obj self) k = self k"
  using keeps_GenericView_call [OF assms(1), of g fw request obj] assms(2)
  by (simp add: snd_ObjectView_call keeps_config_def)

text \<open>On the sample view whose \<^verbatim>\<open>get_context\<close> writes \<^verbatim>\<open>hits\<close>: the call changes the
  instance, and not its configuration.\<close>

theorem call_keeps_config_witness:
  "overrides_keep_config counting_view \<and> ''mimetype'' \<in> set config_names
   \<and> snd (ObjectView_call views_globals example_framework counting_view () PyNone
            example_instance) ''mimetype'' = Some (PyStr ''text/html'')
   \<and> snd (ObjectView_call views_globals example_framework counting_view () PyNone
            example_instance) ''hits'' = Some (PyInt 1)"
proof -
  have h1: "overrides_keep_config counting_view"
    by (simp add: overrides_keep_config_def counting_view_def plain_class_def keeps_config_def
        config_names_def config_defaults_def)
  have h2: "''mimetype'' \<in> set config_names"
    by (simp add: config_names_def config_defaults_def)
  have h3: "snd (ObjectView_call views_globals example_framework counting_view () PyNone
            example_instance) ''hits'' = Some (PyInt 1)"
    by (simp add: snd_ObjectView_call counting_view_def plain_class_def example_instance_def
        example_framework_def views_globals_def method_defs)
  show ?thesis
    using h1 h2 h3
      call_keeps_config [OF h1 h2, of views_globals example_framework "()" PyNone example_instance]
    by (simp add: example_instance_def)
qed

text \<open>The claim as first stated, for every view instance, fails: on the sample view whose
  \<^verbatim>\<open>get_context\<close> sets \<^verbatim>\<open>self.mimetype\<close>, the call changes the attribute.\<close>

theorem call_keeps_config_counterexample:
  "snd (ObjectView_call views_globals example_framework mimetype_setting_view () PyNone
          example_instance) ''mimetype'' = Some (PyStr ''text/plain'')
   \<and> example_instance ''mimetype'' = Some (PyStr ''text/html'')"
  by (simp add: snd_ObjectView_call mimetype_setting_view_def plain_class_def
      example_instance_def example_framework_def views_globals_def method_defs)

subsection \<open>Unexpected keyword arguments\<close>

text \<open>
  C9, as amended. Construction succeeds exactly when every keyword argument is one of
  \<^verbatim>\<open>context_processors\<close>, \<^verbatim>\<open>mimetype\<close>, \<^verbatim>\<open>template_loader\<close>, \<^verbatim>\<open>template_name\<close>.
  Otherwise \<^verbatim>\<open>__init__\<close> raises \<^verbatim>\<open>TypeError\<close> naming one unexpected keyword argument:
  the first, in the dictionary's iteration order, whose name is not among the four.
\<close>

theorem GenericView_init_unexpected:
  "(fst (GenericView_init cls kwargs self) = Inr ())
     = (\<forall>k \<in> set (map fst kwargs). k \<in> set config_names)
   \<and> (case find (\<lambda>k. k \<notin> set config_names) (map fst kwargs) of
        None \<Rightarrow> fst (GenericView_init cls kwargs self) = Inr ()
      | Some k \<Rightarrow> fst (GenericView_init cls kwargs self) = Inl (TypeError (unexpected_keyword k)))"
proof -
  have f: "find (\<lambda>k. k \<notin> set config_names) (map fst kwargs) =
      (case filter (\<lambda>(k, v). k \<notin> set config_names) kwargs of
         [] \<Rightarrow> None | (k, v) # rest \<Rightarrow> Some k)"
    by (induction kwargs) (auto split: list.splits)
  have e: "(filter (\<lambda>(k, v). k \<notin> set config_names) kwargs = []) =
      (\<forall>k \<in> set (map fst kwargs). k \<in> set config_names)"
    by (auto simp: filter_empty_conv)
  show ?thesis
    using e by (auto simp: init_fst f split: list.splits)
qed

text \<open>One expected and one unexpected keyword; and the expected one alone.\<close>

theorem GenericView_init_unexpected_witness:
  "fst (GenericView_init (GenericView :: (unit, nat, nat, string) view_class)
         [(''mimetype'', PyStr ''text/plain''), (''colour'', PyInt 3)] Map.empty)
     = Inl (TypeError (unexpected_keyword ''colour''))
   \<and> fst (GenericView_init (GenericView :: (unit, nat, nat, string) view_class)
         [(''mimetype'', PyStr ''text/plain'')] Map.empty) = Inr ()"
  using GenericView_init_unexpected [of "GenericView :: (unit, nat, nat, string) view_class"
          "[(''mimetype'', PyStr ''text/plain''), (''colour'', PyInt 3)]" Map.empty]
        GenericView_init_unexpected [of "GenericView :: (unit, nat, nat, string) view_class"
          "[(''mimetype'', PyStr ''text/plain'')]" Map.empty]
  by (simp add: config_names_def config_defaults_def)

text \<open>The claim as first stated fails: with two unexpected keyword arguments, the
  \<^verbatim>\<open>TypeError\<close> names \<^verbatim>\<open>a\<close> and not \<^verbatim>\<open>b\<close>.\<close>

theorem GenericView_init_unexpected_counterexample:
  "fst (GenericView_init (GenericView :: (unit, nat, nat, string) view_class)
         [(''a'', PyNone), (''b'', PyNone)] Map.empty)
     = Inl (TypeError (unexpected_keyword ''a''))
   \<and> unexpected_keyword ''a'' \<noteq> unexpected_keyword ''b''"
  by (simp add: init_fst config_names_def config_defaults_def unexpected_keyword_def)

subsection \<open>The list of template names\<close>




subsection \<open>Further properties\<close>

text \<open>
  With \<^verbatim>\<open>ImproperlyConfigured\<close> bound in the module's namespace, calling a view
  that inherits \<^verbatim>\<open>get_template\<close> and \<^verbatim>\<open>get_template_names\<close> and whose \<^verbatim>\<open>template_name\<close> is \<^verbatim>\<open>None\<close> raises \<^verbatim>\<open>ImproperlyConfigured\<close> with the message
  \<^verbatim>\<open>'<class name>' must provide template_name.\<close>
\<close>

theorem missing_template_name_bound:
  assumes "g_ImproperlyConfigured g = Some ImproperlyConfigured"
  shows "GenericView_call g fw (cls\<lparr>o_get_template := None, o_get_template_names := None\<rparr>)
     request obj (self(''template_name'' \<mapsto> PyNone)) =
   (Inl (ImproperlyConfigured (must_provide (cls_name cls))),
    self(''template_name'' \<mapsto> PyNone))"
  using assms
  by (simp add: GenericView_call_def self_get_template_def get_template_def
      self_get_template_names_def get_template_names_def
      bind_def return_def raise_def self_attr_def)

theorem missing_template_name_bound_witness:
  "g_ImproperlyConfigured bound_globals = Some ImproperlyConfigured
   \<and> fst (GenericView_call bound_globals example_framework
        (plain_class ''Page'' GenericViewKind Map.empty) () PyNone
        (example_instance(''template_name'' \<mapsto> PyNone)))
      = Inl (ImproperlyConfigured
              ([CHR 0x27] @ ''Page'' @ [CHR 0x27] @ '' must provide template_name.''))"
proof -
  have h: "g_ImproperlyConfigured bound_globals = Some ImproperlyConfigured"
    by (simp add: bound_globals_def)
  show ?thesis
    using h missing_template_name_bound [OF h, of example_framework
        "plain_class ''Page'' GenericViewKind Map.empty" "()" PyNone example_instance]
    by (simp add: must_provide_def plain_class_def)
qed

text \<open>
  With \<^verbatim>\<open>RequestContext\<close> and \<^verbatim>\<open>HttpResponse\<close> bound in the module's namespace, a
  call of a view that overrides nothing, whose loader finds the template and whose
  framework calls succeed, returns
  \<^verbatim>\<open>HttpResponse(template.render(context), mimetype=self.mimetype)\<close>, where the context is
  \<^verbatim>\<open>RequestContext(request, {}, self.context_processors)\<close>, and leaves the instance as
  it was.
\<close>

theorem GenericView_call_response_when_bound:
  assumes "g_RequestContext g = Some request_context"
    and "g_HttpResponse g = Some http_response"
    and "self = [''context_processors'' \<mapsto> processors, ''mimetype'' \<mapsto> mimetype,
                 ''template_loader'' \<mapsto> PyNone, ''template_name'' \<mapsto> PyStr name]"
    and "select_template fw (django_template_loader fw) (PyList [PyStr name]) = Inr template"
    and "request_context request [] processors = Inr ctx"
    and "render fw template ctx = Inr content"
  shows "GenericView_call g fw (plain_class cname kind Map.empty) request obj self =
     (http_response content [(''mimetype'', mimetype)], self)"
  using assms
  by (simp add: plain_class_def method_defs)

theorem GenericView_call_response_when_bound_witness:
  "fst (GenericView_call bound_globals example_framework
        (plain_class ''Page'' GenericViewKind Map.empty) () PyNone example_instance)
     = Inr ''200 text/html body''"
  using GenericView_call_response_when_bound [where g = bound_globals
      and fw = example_framework and self = example_instance and processors = PyNone
      and mimetype = "PyStr ''text/html''" and name = "''page.html''" and template = 1
      and request = "()" and ctx = 2 and content = "PyStr ''body''"
      and cname = "''Page''" and kind = GenericViewKind and obj = PyNone
      and request_context = "\<lambda>request context processors. Inr 2"
      and http_response = "\<lambda>content kw.
        Inr (case (content, kw) of
               (PyStr body, [(k, PyStr mimetype)]) \<Rightarrow> ''200 '' @ mimetype @ '' '' @ body
             | _ \<Rightarrow> ''200'')"]
  by (simp add: bound_globals_def example_framework_def example_instance_def)

text \<open>
  The loop of \<^verbatim>\<open>_load_config_values\<close> runs over a dictionary, whose iteration
  order Python 2 does not fix. The order does not matter: two lists of defaults with
  the same pairs and distinct names leave the same keyword arguments and the same
  instance.
\<close>

theorem load_config_values_order:
  assumes "distinct (map fst ds)" and "distinct (map fst ds')" and "set ds' = set ds"
  shows "load_config_values ca ds' kw self = load_config_values ca ds kw self"
proof -
  have keys: "set (map fst ds') = set (map fst ds)"
    using assms(3) by simp
  have m: "map_of ds' = map_of ds"
    using assms by (simp add: map_of_inject_set)
  have a: "fst (load_config_values ca ds' kw self) = fst (load_config_values ca ds kw self)"
    by (simp only: load_config_values_rest keys)
  have b: "snd (load_config_values ca ds' kw self) = snd (load_config_values ca ds kw self)"
    by (rule ext) (simp add: load_config_values_attrs assms(1,2) m)
  from a b show ?thesis by (simp add: prod_eq_iff)
qed

theorem load_config_values_order_witness:
  "load_config_values Map.empty (rev config_defaults) [(''mimetype'', PyStr ''text/plain'')]
     Map.empty =
   load_config_values Map.empty config_defaults [(''mimetype'', PyStr ''text/plain'')] Map.empty"
proof -
  have d: "distinct (map fst config_defaults)"
    by (simp add: config_defaults_def)
  have d': "distinct (map fst (rev config_defaults))"
    using d by (simp add: rev_map [symmetric])
  have s: "set (rev config_defaults) = set config_defaults"
    by simp
  show ?thesis
    using load_config_values_order [OF d d' s] .
qed

text \<open>The order of three decorators, written out.\<close>

lemma ObjectViewMeta_new_three:
  "attr_call (ObjectViewMeta_new \<lparr>attr_decorators = Some [d1, d2, d3], attr_call = call\<rparr>)
     = d1 (d2 (d3 call))"
  by (simp add: ObjectViewMeta_new_def)

end
